theory Spec2Isabelle
  imports Complex_Main "HOL-Library.Log_Nat"
begin

section \<open>Python values used by \<^verbatim>\<open>read_data.py\<close>\<close>

text \<open>
  The script \<^verbatim>\<open>read_data.py\<close> reads line-delimited JSON files and prints reports.
  Its functions are embedded below as HOL functions.  What the script takes from the
  Python standard library (\<^verbatim>\<open>json.loads\<close>, \<^verbatim>\<open>int\<close>, \<^verbatim>\<open>float\<close>, float arithmetic,
  \<^verbatim>\<open>datetime.fromtimestamp\<close>, \<^verbatim>\<open>strftime\<close>, text-mode file iteration) is modelled first,
  after the language and library documentation.

  Text is a \<^typ>\<open>string\<close>: one \<^typ>\<open>char\<close> is one character of a Python \<^verbatim>\<open>str\<close>, so the
  alphabet of the model is the first 256 code points, and a file is read in a
  one-byte encoding (one byte of the file is one character of the text).
\<close>

subsection \<open>Exceptions\<close>

datatype error =
    JSONDecodeError | KeyError | TypeError | ValueError | OverflowError
  | ZeroDivisionError | IsADirectoryError
  | Unrepresentable  \<comment> \<open>a \<^verbatim>\<open>\u\<close> escape for a character outside the model's alphabet\<close>

definition ebind :: "error + 'a \<Rightarrow> ('a \<Rightarrow> error + 'b) \<Rightarrow> error + 'b" where
  "ebind m f = (case m of Inl e \<Rightarrow> Inl e | Inr x \<Rightarrow> f x)"

subsection \<open>Floats: IEEE 754 binary64, round to nearest, ties to even\<close>

text \<open>
  A finite float is the rational number it denotes; \<open>Fin 0\<close> is \<open>+0.0\<close> and \<open>NegZero\<close>
  is \<open>-0.0\<close>.  Every operation is the exact operation followed by \<open>round_double\<close>.
\<close>

datatype pyfloat = Fin rat | NegZero | PInf | NInf | NaN

definition pow2 :: "int \<Rightarrow> rat" where
  "pow2 e = (if 0 \<le> e then 2 ^ nat e else 1 / 2 ^ nat (- e))"

definition floor_log2 :: "rat \<Rightarrow> int" where
  "floor_log2 a =
     (let (p, q) = quotient_of a; d = bitlen p - bitlen q
      in if pow2 d \<le> a then d else d - 1)"

definition round_half_even :: "rat \<Rightarrow> int" where
  "round_half_even r =
     (let f = \<lfloor>r\<rfloor>; d = r - of_int f
      in if d < 1 / 2 then f else if 1 / 2 < d then f + 1
         else if even f then f else f + 1)"

definition round_double :: "rat \<Rightarrow> pyfloat" where
  "round_double r =
     (if r = 0 then Fin 0
      else
        let a = \<bar>r\<bar>;
            e = max (floor_log2 a) (- 1022);
            q = pow2 (e - 52);
            n = round_half_even (a / q);
            v = of_int n * q
        in if pow2 1024 \<le> v then (if 0 < r then PInf else NInf)
           else if n = 0 then (if 0 < r then Fin 0 else NegZero)
           else Fin (if 0 < r then v else - v))"

fun fsign :: "pyfloat \<Rightarrow> bool" where
  "fsign (Fin x) = (x < 0)"
| "fsign NegZero = True"
| "fsign PInf = False"
| "fsign NInf = True"
| "fsign NaN = False"

fun fval :: "pyfloat \<Rightarrow> rat" where
  "fval (Fin x) = x"
| "fval _ = 0"

definition is_zero :: "pyfloat \<Rightarrow> bool" where
  "is_zero x = (x = Fin 0 \<or> x = NegZero)"

definition is_inf :: "pyfloat \<Rightarrow> bool" where
  "is_inf x = (x = PInf \<or> x = NInf)"

definition signed_zero :: "bool \<Rightarrow> pyfloat" where
  "signed_zero neg = (if neg then NegZero else Fin 0)"

definition signed_inf :: "bool \<Rightarrow> pyfloat" where
  "signed_inf neg = (if neg then NInf else PInf)"

fun fneg :: "pyfloat \<Rightarrow> pyfloat" where
  "fneg (Fin x) = (if x = 0 then NegZero else Fin (- x))"
| "fneg NegZero = Fin 0"
| "fneg PInf = NInf"
| "fneg NInf = PInf"
| "fneg NaN = NaN"

fun fadd :: "pyfloat \<Rightarrow> pyfloat \<Rightarrow> pyfloat" where
  "fadd NaN y = NaN"
| "fadd x NaN = NaN"
| "fadd PInf NInf = NaN"
| "fadd NInf PInf = NaN"
| "fadd PInf y = PInf"
| "fadd x PInf = PInf"
| "fadd NInf y = NInf"
| "fadd x NInf = NInf"
| "fadd NegZero y = y"
| "fadd x NegZero = x"
| "fadd (Fin x) (Fin y) = (if x + y = 0 then Fin 0 else round_double (x + y))"

definition fsub :: "pyfloat \<Rightarrow> pyfloat \<Rightarrow> pyfloat" where
  "fsub x y = fadd x (fneg y)"

definition fmul :: "pyfloat \<Rightarrow> pyfloat \<Rightarrow> pyfloat" where
  "fmul x y =
     (if x = NaN \<or> y = NaN then NaN
      else if is_inf x \<or> is_inf y then
        (if is_zero x \<or> is_zero y then NaN else signed_inf (fsign x \<noteq> fsign y))
      else if is_zero x \<or> is_zero y then signed_zero (fsign x \<noteq> fsign y)
      else round_double (fval x * fval y))"

text \<open>Python's float division raises on a zero divisor instead of returning an infinity.\<close>

definition fdiv :: "pyfloat \<Rightarrow> pyfloat \<Rightarrow> error + pyfloat" where
  "fdiv x y =
     (if is_zero y then Inl ZeroDivisionError
      else Inr
        (if x = NaN \<or> y = NaN then NaN
         else if is_inf x then (if is_inf y then NaN else signed_inf (fsign x \<noteq> fsign y))
         else if is_inf y \<or> is_zero x then signed_zero (fsign x \<noteq> fsign y)
         else round_double (fval x / fval y)))"

text \<open>\<^verbatim>\<open>float(n)\<close> for an int: correctly rounded, \<^verbatim>\<open>OverflowError\<close> beyond the largest float.\<close>

definition float_of_int :: "int \<Rightarrow> error + pyfloat" where
  "float_of_int n =
     (let f = round_double (of_int n) in if is_inf f then Inl OverflowError else Inr f)"

text \<open>\<^verbatim>\<open>a / b\<close> for two ints: the correctly rounded quotient.\<close>

definition int_truediv :: "int \<Rightarrow> int \<Rightarrow> error + pyfloat" where
  "int_truediv a b =
     (if b = 0 then Inl ZeroDivisionError
      else if a = 0 then Inr (signed_zero (b < 0))
      else let f = round_double (of_int a / of_int b)
           in if is_inf f then Inl OverflowError else Inr f)"

subsection \<open>Numbers: \<^verbatim>\<open>int\<close> and \<^verbatim>\<open>float\<close> mixed as Python mixes them\<close>

datatype num = I int | F pyfloat

definition to_float :: "num \<Rightarrow> error + pyfloat" where
  "to_float n = (case n of I k \<Rightarrow> float_of_int k | F x \<Rightarrow> Inr x)"

definition num_sub :: "num \<Rightarrow> num \<Rightarrow> error + num" where
  "num_sub a b =
     (case (a, b) of
        (I x, I y) \<Rightarrow> Inr (I (x - y))
      | _ \<Rightarrow> ebind (to_float a) (\<lambda>x. ebind (to_float b) (\<lambda>y. Inr (F (fsub x y)))))"

definition num_mul :: "num \<Rightarrow> num \<Rightarrow> error + num" where
  "num_mul a b =
     (case (a, b) of
        (I x, I y) \<Rightarrow> Inr (I (x * y))
      | _ \<Rightarrow> ebind (to_float a) (\<lambda>x. ebind (to_float b) (\<lambda>y. Inr (F (fmul x y)))))"

definition num_truediv :: "num \<Rightarrow> num \<Rightarrow> error + num" where
  "num_truediv a b =
     (case (a, b) of
        (I x, I y) \<Rightarrow> ebind (int_truediv x y) (\<lambda>q. Inr (F q))
      | _ \<Rightarrow> ebind (to_float a) (\<lambda>x. ebind (to_float b) (\<lambda>y. ebind (fdiv x y) (\<lambda>q. Inr (F q)))))"

text \<open>
  Comparison is exact, also between an int and a float; a NaN compares false with
  everything.  \<open>num_key\<close> places a number on the extended line: the first component
  orders the infinities around all finite values.
\<close>

definition num_is_nan :: "num \<Rightarrow> bool" where
  "num_is_nan a = (a = F NaN)"

definition num_key :: "num \<Rightarrow> int \<times> rat" where
  "num_key a =
     (case a of
        I k \<Rightarrow> (0, of_int k)
      | F (Fin x) \<Rightarrow> (0, x)
      | F NegZero \<Rightarrow> (0, 0)
      | F PInf \<Rightarrow> (1, 0)
      | F NInf \<Rightarrow> (- 1, 0)
      | F NaN \<Rightarrow> (0, 0))"

definition key_less :: "int \<times> rat \<Rightarrow> int \<times> rat \<Rightarrow> bool" where
  "key_less p q = (fst p < fst q \<or> (fst p = fst q \<and> snd p < snd q))"

definition num_gt :: "num \<Rightarrow> num \<Rightarrow> bool" where
  "num_gt a b = (\<not> num_is_nan a \<and> \<not> num_is_nan b \<and> key_less (num_key b) (num_key a))"

definition num_ge :: "num \<Rightarrow> num \<Rightarrow> bool" where
  "num_ge a b = (\<not> num_is_nan a \<and> \<not> num_is_nan b \<and> \<not> key_less (num_key a) (num_key b))"

subsection \<open>Text: digits, whitespace, \<^verbatim>\<open>int(str)\<close> and \<^verbatim>\<open>float(str)\<close>\<close>

definition LF :: char where "LF = CHR 0x0A"
definition CR :: char where "CR = CHR 0x0D"

definition is_digit :: "char \<Rightarrow> bool" where
  "is_digit c = (48 \<le> (of_char c :: nat) \<and> (of_char c :: nat) \<le> 57)"

definition digit_val :: "char \<Rightarrow> int" where
  "digit_val c = of_char c - 48"

definition int_of_digits :: "string \<Rightarrow> int" where
  "int_of_digits ds = foldl (\<lambda>n c. 10 * n + digit_val c) 0 ds"

text \<open>\<^verbatim>\<open>str.isspace\<close> on the model's alphabet.\<close>

definition py_space :: "char \<Rightarrow> bool" where
  "py_space c =
     (let n = (of_char c :: nat)
      in (9 \<le> n \<and> n \<le> 13) \<or> (28 \<le> n \<and> n \<le> 32) \<or> n = 133 \<or> n = 160)"

definition strip :: "string \<Rightarrow> string" where
  "strip s = rev (dropWhile py_space (rev (dropWhile py_space s)))"

text \<open>An underscore is allowed in a numeric string only between two digits.\<close>

fun underscores_ok :: "char \<Rightarrow> string \<Rightarrow> bool" where
  "underscores_ok prev [] = (prev \<noteq> CHR ''_'')"
| "underscores_ok prev (c # cs) =
     ((if c = CHR ''_'' then is_digit prev else (prev \<noteq> CHR ''_'' \<or> is_digit c))
      \<and> underscores_ok c cs)"

definition split_sign :: "string \<Rightarrow> bool \<times> string" where
  "split_sign s =
     (case s of
        [] \<Rightarrow> (False, [])
      | c # cs \<Rightarrow> if c = CHR ''-'' then (True, cs) else if c = CHR ''+'' then (False, cs)
                 else (False, s))"

text \<open>
  \<^verbatim>\<open>int(s)\<close> in base 10.  A numeral of more than 4300 digits is refused (the default of
  \<^verbatim>\<open>sys.get_int_max_str_digits()\<close>).
\<close>

definition int_of_str :: "string \<Rightarrow> error + int" where
  "int_of_str s =
     (let (neg, body) = split_sign (strip s)
      in if body \<noteq> [] \<and> list_all (\<lambda>c. is_digit c \<or> c = CHR ''_'') body
            \<and> underscores_ok (CHR 0x00) body
            \<and> length (filter is_digit body) \<le> 4300
         then Inr ((if neg then - 1 else 1) * int_of_digits (filter is_digit body))
         else Inl ValueError)"

definition lower :: "char \<Rightarrow> char" where
  "lower c = (let n = (of_char c :: nat) in if 65 \<le> n \<and> n \<le> 90 then char_of (n + 32) else c)"

text \<open>
  A decimal numeral \<open>digits [. digits] [e [sign] digits]\<close> with at least one digit in the
  mantissa, as the rational number it denotes; \<open>None\<close> when the text is not one.
\<close>

definition pow10 :: "int \<Rightarrow> rat" where
  "pow10 e = (if 0 \<le> e then 10 ^ nat e else 1 / 10 ^ nat (- e))"

definition decimal_value :: "string \<Rightarrow> rat option" where
  "decimal_value s =
     (let ip = takeWhile is_digit s; r1 = dropWhile is_digit s;
          (fp, r2) = (case r1 of
                        [] \<Rightarrow> ([], r1)
                      | p # t \<Rightarrow> if p = CHR ''.'' then (takeWhile is_digit t, dropWhile is_digit t)
                                 else ([], r1));
          mant = of_int (int_of_digits (ip @ fp)) :: rat;
          scale = - int (length fp)
      in if ip = [] \<and> fp = [] then None
         else (case r2 of
                 [] \<Rightarrow> Some (mant * pow10 scale)
               | x # t \<Rightarrow>
                   if x = CHR ''e'' \<or> x = CHR ''E'' then
                     (let (eneg, ed) = split_sign t
                      in if ed \<noteq> [] \<and> list_all is_digit ed
                         then Some (mant * pow10 ((if eneg then - 1 else 1) * int_of_digits ed + scale))
                         else None)
                   else None))"

definition float_of_str :: "string \<Rightarrow> error + pyfloat" where
  "float_of_str s =
     (if \<not> underscores_ok (CHR 0x00) s then Inl ValueError
      else
        let (neg, body) = split_sign (strip (filter (\<lambda>c. c \<noteq> CHR ''_'') s));
            word = map lower body
        in if word = ''inf'' \<or> word = ''infinity'' then Inr (signed_inf neg)
           else if word = ''nan'' then Inr NaN
           else (case decimal_value body of
                   None \<Rightarrow> Inl ValueError
                 | Some v \<Rightarrow> Inr (if v = 0 then signed_zero neg
                                  else round_double (if neg then - v else v))))"

subsection \<open>Decoded JSON values and \<^verbatim>\<open>json.loads\<close>\<close>

datatype json =
    JNull | JBool bool | JInt int | JFloat pyfloat | JStr string
  | JArr "json list" | JObj "(string \<times> json) list"

text \<open>A \<^verbatim>\<open>dict\<close> keeps insertion order; storing under an existing key keeps its place.\<close>

fun dict_set :: "'k \<Rightarrow> 'v \<Rightarrow> ('k \<times> 'v) list \<Rightarrow> ('k \<times> 'v) list" where
  "dict_set k v [] = [(k, v)]"
| "dict_set k v (p # ps) = (if fst p = k then (k, v) # ps else p # dict_set k v ps)"

fun dict_get :: "('k \<times> 'v) list \<Rightarrow> 'k \<Rightarrow> 'v option" where
  "dict_get [] k = None"
| "dict_get (p # ps) k = (if fst p = k then Some (snd p) else dict_get ps k)"

datatype token =
    TLBrace | TRBrace | TLBrack | TRBrack | TComma | TColon
  | TString string | TAtom json | TBad error

definition hex_val :: "char \<Rightarrow> nat option" where
  "hex_val c =
     (let n = (of_char c :: nat)
      in if 48 \<le> n \<and> n \<le> 57 then Some (n - 48)
         else if 65 \<le> n \<and> n \<le> 70 then Some (n - 55)
         else if 97 \<le> n \<and> n \<le> 102 then Some (n - 87)
         else None)"

definition simple_escape :: "char \<Rightarrow> char option" where
  "simple_escape e =
     (if e = CHR 0x22 then Some (CHR 0x22)
      else if e = CHR 0x5C then Some (CHR 0x5C)
      else if e = CHR ''/'' then Some (CHR ''/'')
      else if e = CHR ''b'' then Some (CHR 0x08)
      else if e = CHR ''f'' then Some (CHR 0x0C)
      else if e = CHR ''n'' then Some (CHR 0x0A)
      else if e = CHR ''r'' then Some (CHR 0x0D)
      else if e = CHR ''t'' then Some (CHR 0x09)
      else None)"

definition unicode_escape :: "string \<Rightarrow> error + char" where
  "unicode_escape hs =
     (case map hex_val hs of
        [Some a, Some b, Some c, Some d] \<Rightarrow>
          if a = 0 \<and> b = 0 then Inr (char_of (16 * c + d)) else Inl Unrepresentable
      | _ \<Rightarrow> Inl JSONDecodeError)"

definition cons_result :: "char \<Rightarrow> (error + string) \<times> string \<Rightarrow> (error + string) \<times> string" where
  "cons_result c r = (case fst r of Inl e \<Rightarrow> r | Inr s \<Rightarrow> (Inr (c # s), snd r))"

text \<open>
  The text after an opening quote: the string's characters and what follows the closing
  quote.  Control characters are refused (the decoder is strict).
\<close>

fun scanstring :: "string \<Rightarrow> (error + string) \<times> string" where
  "scanstring [] = (Inl JSONDecodeError, [])"
| "scanstring (c # cs) =
     (if c = CHR 0x22 then (Inr [], cs)
      else if c = CHR 0x5C then
        (case cs of
           [] \<Rightarrow> (Inl JSONDecodeError, [])
         | e # es \<Rightarrow>
             if e = CHR ''u'' then
               (case unicode_escape (take 4 es) of
                  Inl err \<Rightarrow> (Inl err, drop 4 es)
                | Inr ch \<Rightarrow> cons_result ch (scanstring (drop 4 es)))
             else
               (case simple_escape e of
                  None \<Rightarrow> (Inl JSONDecodeError, es)
                | Some ch \<Rightarrow> cons_result ch (scanstring es)))
      else if (of_char c :: nat) < 32 then (Inl JSONDecodeError, cs)
      else cons_result c (scanstring cs))"

text \<open>
  The decoder's number pattern \<^verbatim>\<open>(-?(?:0|[1-9][0-9]*))(\.[0-9]+)?([eE][-+]?[0-9]+)?\<close>:
  the longest match at the head of the text and the rest.  A match with a fraction or an
  exponent is a float, any other an int, converted by \<^verbatim>\<open>float\<close> and \<^verbatim>\<open>int\<close>.
\<close>

definition match_frac :: "string \<Rightarrow> string \<times> string" where
  "match_frac r =
     (case r of
        [] \<Rightarrow> ([], r)
      | p # t \<Rightarrow> if p = CHR ''.'' \<and> takeWhile is_digit t \<noteq> []
                 then (p # takeWhile is_digit t, dropWhile is_digit t) else ([], r))"

definition match_exp :: "string \<Rightarrow> string \<times> string" where
  "match_exp r =
     (case r of
        [] \<Rightarrow> ([], r)
      | x # t \<Rightarrow>
          if x = CHR ''e'' \<or> x = CHR ''E'' then
            (let (sg, u) = (case t of
                              [] \<Rightarrow> ([], t)
                            | g # w \<Rightarrow> if g = CHR ''+'' \<or> g = CHR ''-'' then ([g], w) else ([], t))
             in if takeWhile is_digit u \<noteq> []
                then (x # sg @ takeWhile is_digit u, dropWhile is_digit u) else ([], r))
          else ([], r))"

definition match_number :: "string \<Rightarrow> ((error + json) \<times> string) option" where
  "match_number s =
     (let (sg, s1) = (case s of
                        [] \<Rightarrow> ([], s)
                      | c # cs \<Rightarrow> if c = CHR ''-'' then ([c], cs) else ([], s))
      in case s1 of
           [] \<Rightarrow> None
         | d # ds \<Rightarrow>
             if \<not> is_digit d then None
             else
               let (ip, r1) = (if d = CHR ''0'' then ([d], ds)
                               else (d # takeWhile is_digit ds, dropWhile is_digit ds));
                   (fp, r2) = match_frac r1;
                   (ex, r3) = match_exp r2
               in if fp = [] \<and> ex = [] then
                    Some (ebind (int_of_str (sg @ ip)) (\<lambda>k. Inr (JInt k)), r3)
                  else
                    Some (ebind (float_of_str (sg @ ip @ fp @ ex)) (\<lambda>x. Inr (JFloat x)), r3))"

definition is_json_ws :: "char \<Rightarrow> bool" where
  "is_json_ws c = (c = CHR '' '' \<or> c = CHR 0x09 \<or> c = CHR 0x0A \<or> c = CHR 0x0D)"

definition starts_with :: "string \<Rightarrow> string \<Rightarrow> bool" where
  "starts_with p s = (take (length p) s = p)"

text \<open>
  One token at the head of a text that starts with no whitespace: the token and the number
  of characters it takes.  The order of the tests is the scanner's.
\<close>

definition next_token :: "char \<Rightarrow> string \<Rightarrow> token \<times> nat" where
  "next_token c cs =
     (if c = CHR 0x22 then
        (case scanstring cs of
           (Inl e, r) \<Rightarrow> (TBad e, 0)
         | (Inr s, r) \<Rightarrow> (TString s, length cs - length r))
      else if c = CHR ''{'' then (TLBrace, 0)
      else if c = CHR ''['' then (TLBrack, 0)
      else if c = CHR ''}'' then (TRBrace, 0)
      else if c = CHR '']'' then (TRBrack, 0)
      else if c = CHR '','' then (TComma, 0)
      else if c = CHR '':'' then (TColon, 0)
      else if starts_with ''null'' (c # cs) then (TAtom JNull, 3)
      else if starts_with ''true'' (c # cs) then (TAtom (JBool True), 3)
      else if starts_with ''false'' (c # cs) then (TAtom (JBool False), 4)
      else
        (case match_number (c # cs) of
           Some (Inr v, r) \<Rightarrow> (TAtom v, length cs - length r)
         | Some (Inl e, r) \<Rightarrow> (TBad e, 0)
         | None \<Rightarrow>
             if starts_with ''NaN'' (c # cs) then (TAtom (JFloat NaN), 2)
             else if starts_with ''Infinity'' (c # cs) then (TAtom (JFloat PInf), 7)
             else if starts_with ''-Infinity'' (c # cs) then (TAtom (JFloat NInf), 8)
             else (TBad JSONDecodeError, 0)))"

fun lex :: "string \<Rightarrow> token list" where
  "lex [] = []"
| "lex (c # cs) =
     (if is_json_ws c then lex cs
      else (case next_token c cs of
              (TBad e, n) \<Rightarrow> [TBad e]
            | (t, n) \<Rightarrow> t # lex (drop n cs)))"

datatype frame = FArr "json list" | FObj "(string \<times> json) list" "string option"

datatype mode =
    WantValue | WantValueOrClose | WantKeyOrClose | WantKey | WantColon | AfterValue
  | Done json

fun put_value :: "json \<Rightarrow> frame list \<Rightarrow> (mode \<times> frame list) option" where
  "put_value v [] = Some (Done v, [])"
| "put_value v (FArr xs # st) = Some (AfterValue, FArr (v # xs) # st)"
| "put_value v (FObj kvs (Some k) # st) = Some (AfterValue, FObj (dict_set k v kvs) None # st)"
| "put_value v (FObj kvs None # st) = None"

definition value_ok :: "mode \<Rightarrow> bool" where
  "value_ok m = (m = WantValue \<or> m = WantValueOrClose)"

fun step :: "mode \<Rightarrow> frame list \<Rightarrow> token \<Rightarrow> (mode \<times> frame list) option" where
  "step m st (TAtom v) = (if value_ok m then put_value v st else None)"
| "step m st (TString s) =
     (if value_ok m then put_value (JStr s) st
      else if m = WantKeyOrClose \<or> m = WantKey then
        (case st of
           FObj kvs None # st' \<Rightarrow> Some (WantColon, FObj kvs (Some s) # st')
         | _ \<Rightarrow> None)
      else None)"
| "step m st TLBrack = (if value_ok m then Some (WantValueOrClose, FArr [] # st) else None)"
| "step m st TLBrace = (if value_ok m then Some (WantKeyOrClose, FObj [] None # st) else None)"
| "step m st TRBrack =
     (case st of
        FArr xs # st' \<Rightarrow>
          if m = AfterValue \<or> m = WantValueOrClose then put_value (JArr (rev xs)) st' else None
      | _ \<Rightarrow> None)"
| "step m st TRBrace =
     (case st of
        FObj kvs None # st' \<Rightarrow>
          if m = AfterValue \<or> m = WantKeyOrClose then put_value (JObj kvs) st' else None
      | _ \<Rightarrow> None)"
| "step m st TComma =
     (if m = AfterValue then
        (case st of
           FArr xs # st' \<Rightarrow> Some (WantValue, st)
         | FObj kvs ko # st' \<Rightarrow> Some (WantKey, st)
         | [] \<Rightarrow> None)
      else None)"
| "step m st TColon = (if m = WantColon then Some (WantValue, st) else None)"
| "step m st (TBad e) = None"

text \<open>
  The decoder reads the tokens in order.  A text that cannot be a token is reported with its
  own exception where a value (or, for a string, a key) is expected, and as a syntax error
  anywhere else.
\<close>

fun parse :: "mode \<Rightarrow> frame list \<Rightarrow> token list \<Rightarrow> error + json" where
  "parse m st [] = (case m of Done v \<Rightarrow> Inr v | _ \<Rightarrow> Inl JSONDecodeError)"
| "parse m st (TBad e # ts) =
     Inl (if value_ok m \<or> ((m = WantKey \<or> m = WantKeyOrClose) \<and> e = Unrepresentable) then e
          else JSONDecodeError)"
| "parse m st (t # ts) =
     (case step m st t of
        None \<Rightarrow> Inl JSONDecodeError
      | Some (m', st') \<Rightarrow> parse m' st' ts)"

definition json_loads :: "string \<Rightarrow> error + json" where
  "json_loads s = parse WantValue [] (lex s)"

subsection \<open>Formatting\<close>

text \<open>The decimal digits of a number that is not negative.\<close>

function dec_pos :: "int \<Rightarrow> string" where
  "dec_pos n = (if n < 10 then [char_of (48 + n)] else dec_pos (n div 10) @ [char_of (48 + n mod 10)])"
  by pat_completeness auto
termination
  by (relation "measure nat") auto

definition dec_int :: "int \<Rightarrow> string" where
  "dec_int k = (if k < 0 then CHR ''-'' # dec_pos (- k) else dec_pos k)"

definition dec_nat :: "nat \<Rightarrow> string" where
  "dec_nat n = dec_pos (int n)"

definition zpad :: "nat \<Rightarrow> string \<Rightarrow> string" where
  "zpad w s = replicate (w - length s) (CHR ''0'') @ s"

definition rjust :: "nat \<Rightarrow> string \<Rightarrow> string" where
  "rjust w s = replicate (w - length s) (CHR '' '') @ s"

fun group3 :: "string \<Rightarrow> string" where
  "group3 ds =
     (if length ds \<le> 3 then ds
      else group3 (take (length ds - 3) ds) @ CHR '','' # drop (length ds - 3) ds)"

text \<open>
  The format specifications \<^verbatim>\<open>.2f\<close>, \<^verbatim>\<open>+.2f\<close> and \<^verbatim>\<open>,.2f\<close> of a float: the exact value
  rounded to two decimals, ties to even.
\<close>

definition fmt_f2 :: "bool \<Rightarrow> bool \<Rightarrow> pyfloat \<Rightarrow> string" where
  "fmt_f2 showpos grouped x =
     (if fsign x then [CHR ''-''] else if showpos then [CHR ''+''] else []) @
     (if x = NaN then ''nan''
      else if is_inf x then ''inf''
      else
        let n = round_half_even (\<bar>fval x\<bar> * 100);
            ip = dec_pos (n div 100)
        in (if grouped then group3 ip else ip) @ CHR ''.'' # zpad 2 (dec_pos (n mod 100)))"

text \<open>
  What a print call writes is a list of pieces: literal text, a character outside the
  model's alphabet (by its code point), or the \<^verbatim>\<open>str()\<close> of a decoded value that the
  model does not spell out (floats, lists and dicts).
\<close>

datatype tok = S string | U int | V json

definition py_str :: "json \<Rightarrow> tok" where
  "py_str v =
     (case v of
        JStr s \<Rightarrow> S s
      | JInt k \<Rightarrow> S (dec_int k)
      | JBool b \<Rightarrow> S (if b then ''True'' else ''False'')
      | JNull \<Rightarrow> S ''None''
      | _ \<Rightarrow> V v)"

fun merge_text :: "tok list \<Rightarrow> tok list" where
  "merge_text (S a # S b # ts) = merge_text (S (a @ b) # ts)"
| "merge_text (t # ts) = t # merge_text ts"
| "merge_text [] = []"

text \<open>\<^verbatim>\<open>format(v, '>6s')\<close>: only a \<^verbatim>\<open>str\<close> takes the presentation type \<^verbatim>\<open>s\<close>.\<close>

definition fmt_s :: "nat \<Rightarrow> json \<Rightarrow> error + string" where
  "fmt_s w v =
     (case v of
        JStr s \<Rightarrow> Inr (rjust w s)
      | JInt k \<Rightarrow> Inl ValueError
      | JBool b \<Rightarrow> Inl ValueError
      | JFloat x \<Rightarrow> Inl ValueError
      | _ \<Rightarrow> Inl TypeError)"

subsection \<open>Operations on decoded values\<close>

text \<open>\<^verbatim>\<open>x[k]\<close> with a \<^verbatim>\<open>str\<close> key: only a dict can be indexed so.\<close>

definition subscript :: "json \<Rightarrow> string \<Rightarrow> error + json" where
  "subscript x k =
     (case x of
        JObj kvs \<Rightarrow> (case dict_get kvs k of None \<Rightarrow> Inl KeyError | Some v \<Rightarrow> Inr v)
      | _ \<Rightarrow> Inl TypeError)"

text \<open>
  \<^verbatim>\<open>x[:n]\<close>: a prefix of a \<^verbatim>\<open>str\<close> or a list.  (A dict raises too: \<^verbatim>\<open>TypeError\<close> before
  Python 3.12, \<^verbatim>\<open>KeyError\<close> since.)
\<close>

definition py_slice :: "nat \<Rightarrow> json \<Rightarrow> error + json" where
  "py_slice n x =
     (case x of
        JStr s \<Rightarrow> Inr (JStr (take n s))
      | JArr xs \<Rightarrow> Inr (JArr (take n xs))
      | _ \<Rightarrow> Inl TypeError)"

definition iter_items :: "json \<Rightarrow> json list" where
  "iter_items x = (case x of JArr xs \<Rightarrow> xs | JStr s \<Rightarrow> map (\<lambda>c. JStr [c]) s | _ \<Rightarrow> [])"

definition truthy :: "json \<Rightarrow> bool" where
  "truthy v =
     (case v of
        JNull \<Rightarrow> False
      | JBool b \<Rightarrow> b
      | JInt k \<Rightarrow> k \<noteq> 0
      | JFloat x \<Rightarrow> \<not> is_zero x
      | JStr s \<Rightarrow> s \<noteq> []
      | JArr xs \<Rightarrow> xs \<noteq> []
      | JObj kvs \<Rightarrow> kvs \<noteq> [])"

definition as_num :: "json \<Rightarrow> error + num" where
  "as_num v =
     (case v of
        JInt k \<Rightarrow> Inr (I k)
      | JBool b \<Rightarrow> Inr (I (if b then 1 else 0))
      | JFloat x \<Rightarrow> Inr (F x)
      | _ \<Rightarrow> Inl TypeError)"

definition trunc :: "rat \<Rightarrow> int" where
  "trunc r = (if 0 \<le> r then \<lfloor>r\<rfloor> else - \<lfloor>- r\<rfloor>)"

definition py_int :: "json \<Rightarrow> error + int" where
  "py_int v =
     (case v of
        JStr s \<Rightarrow> int_of_str s
      | JInt k \<Rightarrow> Inr k
      | JBool b \<Rightarrow> Inr (if b then 1 else 0)
      | JFloat x \<Rightarrow>
          (if x = NaN then Inl ValueError else if is_inf x then Inl OverflowError
           else Inr (trunc (fval x)))
      | _ \<Rightarrow> Inl TypeError)"

definition py_float :: "json \<Rightarrow> error + pyfloat" where
  "py_float v =
     (case v of
        JStr s \<Rightarrow> float_of_str s
      | JInt k \<Rightarrow> float_of_int k
      | JBool b \<Rightarrow> Inr (Fin (if b then 1 else 0))
      | JFloat x \<Rightarrow> Inr x
      | _ \<Rightarrow> Inl TypeError)"

text \<open>\<^verbatim>\<open>format(v, ',.2f')\<close> and its variants: an int is converted to a float first.\<close>

definition fmt_num_f2 :: "bool \<Rightarrow> bool \<Rightarrow> num \<Rightarrow> error + string" where
  "fmt_num_f2 showpos grouped a = ebind (to_float a) (\<lambda>x. Inr (fmt_f2 showpos grouped x))"

subsection \<open>Local time\<close>

record datetime =
  dt_year :: int
  dt_month :: int
  dt_day :: int
  dt_hour :: int
  dt_minute :: int
  dt_second :: int

text \<open>The proleptic Gregorian date of a day number counted from 1970-01-01.\<close>

definition civil_from_days :: "int \<Rightarrow> int \<times> int \<times> int" where
  "civil_from_days z0 =
     (let z = z0 + 719468;
          era = z div 146097;
          doe = z mod 146097;
          yoe = (doe - doe div 1460 + doe div 36524 - doe div 146096) div 365;
          doy = doe - (365 * yoe + yoe div 4 - yoe div 100);
          mp = (5 * doy + 2) div 153;
          d = doy - (153 * mp + 2) div 5 + 1;
          m = (if mp < 10 then mp + 3 else mp - 9);
          y = yoe + era * 400 + (if m \<le> 2 then 1 else 0)
      in (y, m, d))"

definition is_leap :: "int \<Rightarrow> bool" where
  "is_leap y = (y mod 4 = 0 \<and> (y mod 400 = 0 \<or> y mod 100 \<noteq> 0))"

definition days_in_month :: "int \<Rightarrow> int \<Rightarrow> int" where
  "days_in_month y m =
     (if m = 2 then (if is_leap y then 29 else 28)
      else if m = 4 \<or> m = 6 \<or> m = 9 \<or> m = 11 then 30 else 31)"

text \<open>
  \<^verbatim>\<open>datetime.fromtimestamp(ts)\<close> for a float, in the local zone: the seconds and the
  microseconds (rounded half to even) are split as the library does, the zone's offset
  from UTC is \<open>tz\<close> (a function of the time, seconds east), and the constructor accepts only
  the years 1 to 9999.  The microseconds are not printed by the script and are dropped.
\<close>

definition timestamp_seconds :: "pyfloat \<Rightarrow> error + int" where
  "timestamp_seconds x =
     (if x = NaN then Inl ValueError
      else if is_inf x then Inl OverflowError
      else
        let r = fval x;
            intpart = trunc r;
            us = round_half_even (fval (fmul (Fin (r - of_int intpart)) (Fin 1000000)));
            secs = (if 1000000 \<le> us then intpart + 1 else if us < 0 then intpart - 1 else intpart)
        in if secs < - (2 ^ 63) \<or> 2 ^ 63 \<le> secs then Inl OverflowError else Inr secs)"

definition fromtimestamp :: "(int \<Rightarrow> int) \<Rightarrow> pyfloat \<Rightarrow> error + datetime" where
  "fromtimestamp tz x =
     ebind (timestamp_seconds x) (\<lambda>secs.
       let local = secs + tz secs;
           (y, m, d) = civil_from_days (local div 86400);
           sod = local mod 86400
       in if 1 \<le> y \<and> y \<le> 9999 \<and> 1 \<le> m \<and> m \<le> 12 \<and> 1 \<le> d \<and> d \<le> days_in_month y m
          then Inr \<lparr>dt_year = y, dt_month = m, dt_day = d, dt_hour = sod div 3600,
                    dt_minute = sod mod 3600 div 60, dt_second = sod mod 60\<rparr>
          else Inl ValueError)"

text \<open>
  \<^verbatim>\<open>strftime('%Y-%m-%d %H:%M:%S')\<close>: the month, day, hour, minute and second are
  zero-padded to two digits.  The year is zero-padded to four digits on some platforms and
  written without padding on others (the C library decides), so this is a parameter.
\<close>

definition strftime :: "bool \<Rightarrow> datetime \<Rightarrow> string" where
  "strftime pad dt =
     (if pad then zpad 4 (dec_pos (dt_year dt)) else dec_pos (dt_year dt)) @ ''-'' @
     zpad 2 (dec_pos (dt_month dt)) @ ''-'' @
     zpad 2 (dec_pos (dt_day dt)) @ '' '' @ zpad 2 (dec_pos (dt_hour dt)) @ '':'' @
     zpad 2 (dec_pos (dt_minute dt)) @ '':'' @ zpad 2 (dec_pos (dt_second dt))"

text \<open>What the script takes from the machine it runs on: the local zone and the year's padding.\<close>

record platform =
  utcoffset :: "int \<Rightarrow> int"
  pad_year :: bool

subsection \<open>Files and effects\<close>

text \<open>
  The file system maps a path to what is there.  A text file is iterated line by line
  with universal newlines: \<^verbatim>\<open>\n\<close>, \<^verbatim>\<open>\r\n\<close> and \<^verbatim>\<open>\r\<close> all end a line and are read as \<^verbatim>\<open>\n\<close>;
  the last line may have no terminator.
\<close>

datatype node = File string | Dir

record world =
  files :: "string \<Rightarrow> node option"
  platform :: platform

fun split_lines :: "string \<Rightarrow> string \<Rightarrow> string list" where
  "split_lines cur [] = (if cur = [] then [] else [rev cur])"
| "split_lines cur [c] =
     (if c = LF \<or> c = CR then [rev (LF # cur)] else [rev (c # cur)])"
| "split_lines cur (c # d # cs) =
     (if c = LF then rev (LF # cur) # split_lines [] (d # cs)
      else if c = CR then
        (if d = LF then rev (LF # cur) # split_lines [] cs
         else rev (LF # cur) # split_lines [] (d # cs))
      else split_lines (c # cur) (d # cs))"

definition text_lines :: "string \<Rightarrow> string list" where
  "text_lines content = split_lines [] content"

text \<open>
  A run of a function is the trace of its calls that reach outside the program
  (\<^verbatim>\<open>print\<close>, \<^verbatim>\<open>json.loads\<close>, \<^verbatim>\<open>os.path.exists\<close>, \<^verbatim>\<open>open\<close>, \<^verbatim>\<open>os.path.getsize\<close>), in order,
  and then either the exception that ended it or its result.
\<close>

datatype event =
    Print "tok list" | Loads string | Exists string | Open string | Getsize string

type_synonym 'a run = "event list \<times> (error + 'a)"

definition pr :: "error + tok list \<Rightarrow> unit run" where
  "pr m = (case m of Inl e \<Rightarrow> ([], Inl e) | Inr ts \<Rightarrow> ([Print (merge_text ts)], Inr ()))"

fun seq :: "unit run list \<Rightarrow> unit run" where
  "seq [] = ([], Inr ())"
| "seq (r # rs) =
     (case r of
        (t, Inl e) \<Rightarrow> (t, Inl e)
      | (t, Inr u) \<Rightarrow> (case seq rs of (t', r') \<Rightarrow> (t @ t', r')))"

definition printed :: "event list \<Rightarrow> tok list list" where
  "printed t = concat (map (\<lambda>ev. case ev of Print l \<Rightarrow> [l] | _ \<Rightarrow> []) t)"

definition decoded :: "event list \<Rightarrow> string list" where
  "decoded t = concat (map (\<lambda>ev. case ev of Loads l \<Rightarrow> [l] | _ \<Rightarrow> []) t)"

definition accessed :: "event list \<Rightarrow> string list" where
  "accessed t =
     concat (map (\<lambda>ev. case ev of Exists p \<Rightarrow> [p] | Open p \<Rightarrow> [p] | Getsize p \<Rightarrow> [p] | _ \<Rightarrow> []) t)"

section \<open>The functions of \<^verbatim>\<open>read_data.py\<close>\<close>

definition rbind :: "'a run \<Rightarrow> ('a \<Rightarrow> 'b run) \<Rightarrow> 'b run" where
  "rbind m f =
     (case m of
        (t, Inl e) \<Rightarrow> (t, Inl e)
      | (t, Inr x) \<Rightarrow> (case f x of (t', r) \<Rightarrow> (t @ t', r)))"

definition lift :: "error + 'a \<Rightarrow> 'a run" where
  "lift m = ([], m)"

definition rule70 :: string where
  "rule70 = replicate 70 (CHR ''='')"

subsection \<open>\<^verbatim>\<open>format_timestamp\<close>\<close>

text \<open>
  \<^verbatim>\<open>int(ts_str) / 1000.0\<close> and the conversion to a calendar string; any exception on the
  way returns the argument itself.
\<close>

definition timestamp_text :: "platform \<Rightarrow> json \<Rightarrow> error + string" where
  "timestamp_text pf ts_str =
     ebind (py_int ts_str) (\<lambda>n.
     ebind (float_of_int n) (\<lambda>x.
     ebind (fdiv x (Fin 1000)) (\<lambda>ts.
     ebind (fromtimestamp (utcoffset pf) ts) (\<lambda>dt. Inr (strftime (pad_year pf) dt)))))"

definition format_timestamp :: "platform \<Rightarrow> json \<Rightarrow> json" where
  "format_timestamp pf ts_str =
     (case timestamp_text pf ts_str of Inl e \<Rightarrow> ts_str | Inr s \<Rightarrow> JStr s)"

subsection \<open>Lines shared by the three readers\<close>

text \<open>\<^verbatim>\<open>if limit and count >= limit\<close>: \<^verbatim>\<open>None\<close> and \<open>0\<close> are both false.\<close>

definition limit_reached :: "int option \<Rightarrow> nat \<Rightarrow> bool" where
  "limit_reached limit cnt = (case limit of None \<Rightarrow> False | Some n \<Rightarrow> n \<noteq> 0 \<and> n \<le> int cnt)"

definition time_line :: "platform \<Rightarrow> json \<Rightarrow> error + tok list" where
  "time_line pf obj =
     ebind (subscript obj ''timestamp'') (\<lambda>ts. Inr [S ''Time: '', py_str (format_timestamp pf ts)])"

definition asset_id_line :: "json \<Rightarrow> error + tok list" where
  "asset_id_line obj =
     ebind (subscript obj ''asset_id'') (\<lambda>a.
     ebind (py_slice 20 a) (\<lambda>p. Inr [S ''Asset ID: '', py_str p, S ''...'']))"

definition market_line :: "json \<Rightarrow> error + tok list" where
  "market_line obj =
     ebind (subscript obj ''market'') (\<lambda>m. Inr [S ''Market: '', py_str m])"

definition not_found :: "string \<Rightarrow> unit run" where
  "not_found filepath = ([Exists filepath, Print [S (''File not found: '' @ filepath)]], Inr ())"

definition banner :: "string \<Rightarrow> unit run" where
  "banner title = ([Print [S (LF # rule70)], Print [S title], Print [S rule70]], Inr ())"

subsection \<open>\<^verbatim>\<open>read_orderbook_snapshots\<close>\<close>

definition gt_zero :: "json \<Rightarrow> error + bool" where
  "gt_zero v = ebind (as_num v) (\<lambda>a. Inr (num_gt a (I 0)))"

definition movement :: "num \<Rightarrow> num \<Rightarrow> tok list" where
  "movement current hourly_open =
     (if num_ge current hourly_open then [S ''UP '', U 0x1F4C8] else [S ''DOWN '', U 0x1F4C9])"

definition change_pct :: "num \<Rightarrow> num \<Rightarrow> error + num" where
  "change_pct current hourly_open =
     ebind (num_sub current hourly_open) (\<lambda>change.
     ebind (num_truediv change hourly_open) (\<lambda>q. num_mul q (I 100)))"

definition candle_line :: "num \<Rightarrow> num \<Rightarrow> error + tok list" where
  "candle_line current hourly_open =
     (let mv = movement current hourly_open
      in ebind (num_sub current hourly_open) (\<lambda>change.
         ebind (change_pct current hourly_open) (\<lambda>pct.
         ebind (fmt_num_f2 False True hourly_open) (\<lambda>s1.
         ebind (fmt_num_f2 False True current) (\<lambda>s2.
         ebind (fmt_num_f2 True False change) (\<lambda>s3.
         ebind (fmt_num_f2 True False pct) (\<lambda>s4.
           Inr ([S ''BTC 1H Candle: Open=$'', S s1, S '' Current=$'', S s2, S '' ('', S s3,
                 S '' / '', S s4, S ''%) ''] @ mv))))))))"

definition price_line :: "num \<Rightarrow> error + tok list" where
  "price_line current = ebind (fmt_num_f2 False True current) (\<lambda>s. Inr [S ''BTC Price: $'', S s])"

text \<open>
  \<^verbatim>\<open>snapshot.get('btc_price_hourly_open', snapshot.get('btc_price_hourly', 0))\<close>
\<close>

definition hourly_open_of :: "(string \<times> json) list \<Rightarrow> json" where
  "hourly_open_of kvs =
     (case dict_get kvs ''btc_price_hourly_open'' of
        Some v \<Rightarrow> v
      | None \<Rightarrow> (case dict_get kvs ''btc_price_hourly'' of Some v \<Rightarrow> v | None \<Rightarrow> JInt 0))"

text \<open>
  The block under \<^verbatim>\<open># Show BTC prices if available\<close>.  It is reached only after
  \<^verbatim>\<open>snapshot['timestamp']\<close> has succeeded, so the snapshot is a dict there.
\<close>

definition btc_prices :: "json \<Rightarrow> unit run" where
  "btc_prices snapshot =
     (case snapshot of
        JObj kvs \<Rightarrow>
          (case dict_get kvs ''btc_price_current'' of
             None \<Rightarrow> ([], Inr ())
           | Some cur \<Rightarrow>
               rbind (lift (gt_zero cur)) (\<lambda>pos.
                 if pos then
                   rbind (lift (gt_zero (hourly_open_of kvs))) (\<lambda>pos_open.
                     pr (ebind (as_num cur) (\<lambda>current.
                         if pos_open
                         then ebind (as_num (hourly_open_of kvs)) (\<lambda>hourly_open.
                                candle_line current hourly_open)
                         else price_line current)))
                 else ([], Inr ())))
      | _ \<Rightarrow> ([], Inl TypeError))"

definition level_line :: "nat \<Rightarrow> json \<Rightarrow> error + tok list" where
  "level_line i lv =
     ebind (subscript lv ''price'') (\<lambda>p.
     ebind (fmt_s 6 p) (\<lambda>ps.
     ebind (subscript lv ''size'') (\<lambda>sz.
       Inr [S ''  '', S (dec_nat (i + 1)), S ''. Price: '', S ps, S ''  Size: '', py_str sz])))"

text \<open>
  \<^verbatim>\<open>if snapshot['bids']: print(...); for i, bid in enumerate(snapshot['bids'][:5]): print(...)\<close>
  and the same for the asks.
\<close>

definition book_side :: "string \<Rightarrow> string \<Rightarrow> json \<Rightarrow> unit run" where
  "book_side title key snapshot =
     rbind (lift (subscript snapshot key)) (\<lambda>levels.
       if truthy levels then
         rbind (pr (Inr [S (LF # title)])) (\<lambda>u.
         rbind (lift (py_slice 5 levels)) (\<lambda>top.
           seq (map (\<lambda>(i, lv). pr (level_line i lv)) (enumerate 0 (iter_items top)))))
       else ([], Inr ()))"

definition show_snapshot :: "platform \<Rightarrow> nat \<Rightarrow> json \<Rightarrow> unit run" where
  "show_snapshot pf cnt snapshot =
     seq [pr (Inr [S (LF # ''Snapshot #''), S (dec_nat (cnt + 1))]),
          pr (time_line pf snapshot),
          pr (asset_id_line snapshot),
          pr (market_line snapshot),
          btc_prices snapshot,
          book_side ''Top 5 Bids:'' ''bids'' snapshot,
          book_side ''Top 5 Asks:'' ''asks'' snapshot]"

fun snapshots_loop :: "platform \<Rightarrow> int option \<Rightarrow> nat \<Rightarrow> string list \<Rightarrow> nat run" where
  "snapshots_loop pf limit cnt [] = ([], Inr cnt)"
| "snapshots_loop pf limit cnt (line # rest) =
     (if limit_reached limit cnt then ([], Inr cnt)
      else
        (case json_loads line of
           Inl e \<Rightarrow> ([Loads line], Inl e)
         | Inr snapshot \<Rightarrow>
             (case show_snapshot pf cnt snapshot of
                (t, Inl e) \<Rightarrow> (Loads line # t, Inl e)
              | (t, Inr u) \<Rightarrow>
                  (case snapshots_loop pf limit (cnt + 1) rest of
                     (t', r) \<Rightarrow> (Loads line # t @ t', r)))))"

definition open_lines :: "world \<Rightarrow> string \<Rightarrow> string list run" where
  "open_lines w filepath =
     (case files w filepath of
        Some (File content) \<Rightarrow> ([Open filepath], Inr (text_lines content))
      | _ \<Rightarrow> ([Open filepath], Inl IsADirectoryError))"

definition read_orderbook_snapshots :: "world \<Rightarrow> string \<Rightarrow> int option \<Rightarrow> unit run" where
  "read_orderbook_snapshots w filepath limit =
     (if files w filepath = None then not_found filepath
      else
        rbind ([Exists filepath], Inr ()) (\<lambda>u.
        rbind (banner ''ORDERBOOK SNAPSHOTS'') (\<lambda>u.
        rbind (open_lines w filepath) (\<lambda>lines.
        rbind (snapshots_loop (platform w) limit 0 lines) (\<lambda>cnt.
          pr (Inr [S (LF # ''Total snapshots: ''), S (dec_nat cnt)]))))))"

subsection \<open>\<^verbatim>\<open>read_price_changes\<close>\<close>

definition read_price_changes :: "world \<Rightarrow> string \<Rightarrow> int option \<Rightarrow> unit run" where
  "read_price_changes w filepath limit =
     ([Print [S ''price_changes.json storage is disabled.'']], Inr ())"

subsection \<open>\<^verbatim>\<open>read_trades\<close>\<close>

text \<open>The running aggregate: \<^verbatim>\<open>count\<close>, \<^verbatim>\<open>total_volume\<close> and the \<^verbatim>\<open>defaultdict(int)\<close>.\<close>

record tstate =
  count :: nat
  total_volume :: pyfloat
  side_counts :: "(json \<times> nat) list"

definition tstate0 :: tstate where
  "tstate0 = \<lparr>count = 0, total_volume = Fin 0, side_counts = []\<rparr>"

definition side_count :: "(json \<times> nat) list \<Rightarrow> json \<Rightarrow> nat" where
  "side_count d k = (case dict_get d k of None \<Rightarrow> 0 | Some n \<Rightarrow> n)"

definition side_incr :: "json \<Rightarrow> (json \<times> nat) list \<Rightarrow> (json \<times> nat) list" where
  "side_incr k d = dict_set k (side_count d k + 1) d"

definition trade_line :: "json \<Rightarrow> error + tok list" where
  "trade_line trade =
     ebind (subscript trade ''side'') (\<lambda>sd.
     ebind (fmt_s 4 sd) (\<lambda>s1.
     ebind (subscript trade ''price'') (\<lambda>p.
     ebind (fmt_s 6 p) (\<lambda>s2.
     ebind (subscript trade ''size'') (\<lambda>sz.
       Inr [S ''Side: '', S s1, S ''  Price: '', S s2, S ''  Size: '', py_str sz])))))"

definition fee_line :: "json \<Rightarrow> error + tok list" where
  "fee_line trade =
     ebind (subscript trade ''fee_rate_bps'') (\<lambda>fee.
     ebind (py_float fee) (\<lambda>x.
     ebind (fdiv x (Fin 100)) (\<lambda>pct.
       Inr [S ''Fee Rate: '', py_str fee, S '' bps ('', V (JFloat pct), S ''%)''])))"

definition notional_of :: "json \<Rightarrow> error + pyfloat" where
  "notional_of trade =
     ebind (subscript trade ''price'') (\<lambda>p.
     ebind (py_float p) (\<lambda>x.
     ebind (subscript trade ''size'') (\<lambda>sz.
     ebind (py_float sz) (\<lambda>y. Inr (fmul x y)))))"

text \<open>One iteration of the loop body after \<^verbatim>\<open>json.loads\<close>: the prints, then the aggregate.\<close>

definition trade_step :: "platform \<Rightarrow> tstate \<Rightarrow> json \<Rightarrow> tstate run" where
  "trade_step pf st trade =
     rbind (seq [pr (Inr [S (LF # ''Trade #''), S (dec_nat (count st + 1))]),
                 pr (time_line pf trade),
                 pr (asset_id_line trade),
                 pr (trade_line trade),
                 pr (fee_line trade)]) (\<lambda>u.
     rbind (lift (notional_of trade)) (\<lambda>notional.
     rbind (pr (Inr [S ''Notional Value: $'', S (fmt_f2 False False notional)])) (\<lambda>u.
     rbind (lift (subscript trade ''side'')) (\<lambda>side.
       ([], Inr (st\<lparr>count := count st + 1,
                      total_volume := fadd (total_volume st) notional,
                      side_counts := side_incr side (side_counts st)\<rparr>))))))"

fun trades_loop :: "platform \<Rightarrow> int option \<Rightarrow> tstate \<Rightarrow> string list \<Rightarrow> tstate run" where
  "trades_loop pf limit st [] = ([], Inr st)"
| "trades_loop pf limit st (line # rest) =
     (if limit_reached limit (count st) then ([], Inr st)
      else
        (case json_loads line of
           Inl e \<Rightarrow> ([Loads line], Inl e)
         | Inr trade \<Rightarrow>
             (case trade_step pf st trade of
                (t, Inl e) \<Rightarrow> (Loads line # t, Inl e)
              | (t, Inr st') \<Rightarrow>
                  (case trades_loop pf limit st' rest of
                     (t', r) \<Rightarrow> (Loads line # t @ t', r)))))"

definition trades_report :: "tstate \<Rightarrow> unit run" where
  "trades_report st =
     seq ([pr (Inr [S (LF # rule70)]),
           pr (Inr [S ''Total trades: '', S (dec_nat (count st))]),
           pr (Inr [S ''Total volume: $'', S (fmt_f2 False False (total_volume st))])]
          @ (if side_counts st \<noteq> [] then
               [pr (Inr [S ''Buy trades: '', S (dec_nat (side_count (side_counts st) (JStr ''BUY'')))]),
                pr (Inr [S ''Sell trades: '', S (dec_nat (side_count (side_counts st) (JStr ''SELL'')))])]
             else []))"

definition read_trades :: "world \<Rightarrow> string \<Rightarrow> int option \<Rightarrow> unit run" where
  "read_trades w filepath limit =
     (if files w filepath = None then not_found filepath
      else
        rbind ([Exists filepath], Inr ()) (\<lambda>u.
        rbind (banner ''TRADES'') (\<lambda>u.
        rbind (open_lines w filepath) (\<lambda>lines.
        rbind (trades_loop (platform w) limit tstate0 lines) (\<lambda>st.
          trades_report st)))))"

subsection \<open>\<^verbatim>\<open>read_tick_size_changes\<close>\<close>

definition tick_line :: "json \<Rightarrow> error + tok list" where
  "tick_line change =
     ebind (subscript change ''old_tick_size'') (\<lambda>old.
     ebind (subscript change ''new_tick_size'') (\<lambda>new.
       Inr [S ''Old Tick Size: '', py_str old, S '' -> New Tick Size: '', py_str new]))"

definition show_change :: "platform \<Rightarrow> nat \<Rightarrow> json \<Rightarrow> unit run" where
  "show_change pf cnt change =
     seq [pr (Inr [S (LF # ''Change #''), S (dec_nat (cnt + 1))]),
          pr (time_line pf change),
          pr (asset_id_line change),
          pr (market_line change),
          pr (tick_line change)]"

fun changes_loop :: "platform \<Rightarrow> nat \<Rightarrow> string list \<Rightarrow> nat run" where
  "changes_loop pf cnt [] = ([], Inr cnt)"
| "changes_loop pf cnt (line # rest) =
     (case json_loads line of
        Inl e \<Rightarrow> ([Loads line], Inl e)
      | Inr change \<Rightarrow>
          (case show_change pf cnt change of
             (t, Inl e) \<Rightarrow> (Loads line # t, Inl e)
           | (t, Inr u) \<Rightarrow>
               (case changes_loop pf (cnt + 1) rest of
                  (t', r) \<Rightarrow> (Loads line # t @ t', r))))"

definition read_tick_size_changes :: "world \<Rightarrow> string \<Rightarrow> unit run" where
  "read_tick_size_changes w filepath =
     (if files w filepath = None then not_found filepath
      else
        rbind ([Exists filepath], Inr ()) (\<lambda>u.
        rbind (banner ''TICK SIZE CHANGES'') (\<lambda>u.
        rbind (open_lines w filepath) (\<lambda>lines.
        rbind (changes_loop (platform w) 0 lines) (\<lambda>cnt.
          pr (Inr [S (LF # ''Total tick size changes: ''), S (dec_nat cnt)]))))))"

subsection \<open>\<^verbatim>\<open>get_statistics\<close>\<close>

text \<open>\<^verbatim>\<open>os.path.join\<close> of a directory and a relative file name.\<close>

definition path_join :: "string \<Rightarrow> string \<Rightarrow> string" where
  "path_join a b = (if a = [] then b else if last a = CHR ''/'' then a @ b else a @ ''/'' @ b)"

definition datasets :: "(string \<times> string) list" where
  "datasets =
     [(''Orderbook Snapshots'', ''orderbook_snapshots.json''),
      (''Trades'', ''trades.json''),
      (''Tick Size Changes'', ''tick_size_changes.json'')]"

text \<open>
  One round of the loop over \<^verbatim>\<open>files.items()\<close>: the line count is the number of lines the
  text-mode iteration yields, the size the number of bytes of the file.
\<close>

definition dataset_stats :: "world \<Rightarrow> string \<Rightarrow> string \<times> string \<Rightarrow> unit run" where
  "dataset_stats w data_dir entry =
     (let name = fst entry; filepath = path_join data_dir (snd entry)
      in case files w filepath of
           None \<Rightarrow> ([Exists filepath, Print [S (LF # name @ '': No data yet'')]], Inr ())
         | Some Dir \<Rightarrow> ([Exists filepath, Open filepath], Inl IsADirectoryError)
         | Some (File content) \<Rightarrow>
             (let line_count = length (text_lines content);
                  size_bytes = int (length content)
              in rbind ([Exists filepath, Open filepath, Getsize filepath], Inr ()) (\<lambda>u.
                 rbind (lift (int_truediv size_bytes (1024 * 1024))) (\<lambda>size_mb.
                   ([Print [S (LF # name @ '':'')],
                     Print [S (''  File: '' @ filepath)],
                     Print [S (''  Messages: '' @ dec_nat line_count)],
                     Print [S (''  Size: '' @ fmt_f2 False False size_mb @ '' MB'')]], Inr ())))))"

definition get_statistics :: "world \<Rightarrow> string \<Rightarrow> unit run" where
  "get_statistics w data_dir =
     seq (banner ''DATA STATISTICS'' # map (dataset_stats w data_dir) datasets)"

subsection \<open>\<^verbatim>\<open>main\<close>, after the arguments are parsed\<close>

record args =
  arg_stats :: bool
  arg_snapshots :: bool
  arg_price_changes :: bool
  arg_trades :: bool
  arg_tick_changes :: bool
  arg_all :: bool
  arg_limit :: "int option"
  arg_data_dir :: string

definition main :: "world \<Rightarrow> args \<Rightarrow> unit run" where
  "main w a =
     (let dir = arg_data_dir a;
          stats = (if arg_stats a \<or> arg_snapshots a \<or> arg_trades a \<or> arg_tick_changes a \<or> arg_all a
                   then arg_stats a else True)
      in if files w dir = None then
           ([Exists dir,
             Print [S (''Error: Data directory '' @ [CHR 0x27] @ dir @ [CHR 0x27] @ '' does not exist.'')],
             Print [S ''Run the Go client first to generate data.'']], Inr ())
         else
           seq (([Exists dir], Inr ())
                # (if stats \<or> arg_all a then [get_statistics w dir] else [])
                @ (if arg_snapshots a \<or> arg_all a
                   then [read_orderbook_snapshots w (dir @ ''/orderbook_snapshots.json'') (arg_limit a)]
                   else [])
                @ (if arg_price_changes a
                   then [read_price_changes w (dir @ ''/price_changes.json'') (arg_limit a)]
                   else [])
                @ (if arg_trades a \<or> arg_all a
                   then [read_trades w (dir @ ''/trades.json'') (arg_limit a)]
                   else [])
                @ (if arg_tick_changes a \<or> arg_all a
                   then [read_tick_size_changes w (dir @ ''/tick_size_changes.json'')]
                   else [])))"

section \<open>Properties\<close>

subsection \<open>Sequencing\<close>

lemma pr_Inr [simp]: "pr (Inr ts) = ([Print (merge_text ts)], Inr ())"
  by (simp add: pr_def)

lemma pr_Inl [simp]: "pr (Inl e) = ([], Inl e)"
  by (simp add: pr_def)

lemma seq_ok_cons [simp]: "seq ((t, Inr u) # rs) = (t @ fst (seq rs), snd (seq rs))"
  by (simp split: prod.splits)

lemma seq_err_cons [simp]: "seq ((t, Inl e) # rs) = (t, Inl e)"
  by simp

declare seq.simps(2) [simp del]

lemma rbind_ok [simp]: "rbind (t, Inr x) f = (t @ fst (f x), snd (f x))"
  by (simp add: rbind_def split: prod.splits)

lemma rbind_err [simp]: "rbind (t, Inl e) f = (t, Inl e)"
  by (simp add: rbind_def)

lemma ebind_Inr [simp]: "ebind (Inr x) f = f x"
  by (simp add: ebind_def)

lemma ebind_Inl [simp]: "ebind (Inl e) f = Inl e"
  by (simp add: ebind_def)

lemma lift_simp [simp]: "lift m = ([], m)"
  by (simp add: lift_def)

lemma printed_simps [simp]:
  "printed [] = []"
  "printed (Print l # t) = l # printed t"
  "printed (Loads s # t) = printed t"
  "printed (Exists p # t) = printed t"
  "printed (Open p # t) = printed t"
  "printed (Getsize p # t) = printed t"
  "printed (t @ t') = printed t @ printed t'"
  by (simp_all add: printed_def)

lemma decoded_simps [simp]:
  "decoded [] = []"
  "decoded (Print l # t) = decoded t"
  "decoded (Loads s # t) = s # decoded t"
  "decoded (Exists p # t) = decoded t"
  "decoded (Open p # t) = decoded t"
  "decoded (Getsize p # t) = decoded t"
  "decoded (t @ t') = decoded t @ decoded t'"
  by (simp_all add: decoded_def)

lemma accessed_simps [simp]:
  "accessed [] = []"
  "accessed (Print l # t) = accessed t"
  "accessed (Loads s # t) = accessed t"
  "accessed (Exists p # t) = p # accessed t"
  "accessed (Open p # t) = p # accessed t"
  "accessed (Getsize p # t) = p # accessed t"
  "accessed (t @ t') = accessed t @ accessed t'"
  by (simp_all add: accessed_def)

subsection \<open>The disabled price-change reader\<close>

text \<open>
  C10. For every world (whatever files exist), every path and every limit,
  \<^verbatim>\<open>read_price_changes\<close> only prints its fixed notice: its trace holds that one print, no
  \<^verbatim>\<open>os.path.exists\<close>, \<^verbatim>\<open>open\<close> or \<^verbatim>\<open>os.path.getsize\<close> of any path and no \<^verbatim>\<open>json.loads\<close>,
  and it ends without an exception.
\<close>

theorem read_price_changes_no_access:
  "read_price_changes w filepath limit
     = ([Print [S ''price_changes.json storage is disabled.'']], Inr ())
   \<and> accessed (fst (read_price_changes w filepath limit)) = []
   \<and> decoded (fst (read_price_changes w filepath limit)) = []"
  by (simp add: read_price_changes_def)

subsection \<open>The asset identifier line\<close>

lemma asset_id_line_str:
  "subscript obj ''asset_id'' = Inr (JStr a) \<Longrightarrow>
   pr (asset_id_line obj) = ([Print [S (''Asset ID: '' @ take 20 a @ ''...'')]], Inr ())"
  by (simp add: asset_id_line_def py_slice_def py_str_def)

lemma time_line_ok:
  "subscript obj ''timestamp'' = Inr ts \<Longrightarrow> \<exists>l. pr (time_line pf obj) = ([Print l], Inr ())"
  by (simp add: time_line_def)

text \<open>
  C2 (as the formatters are written). In the snapshot, trade and tick-change formatters the
  third line printed for a record whose \<^verbatim>\<open>asset_id\<close> is the string \<open>a\<close> is
  \<^verbatim>\<open>Asset ID: \<close> followed by the first 20 characters of \<open>a\<close> (all of \<open>a\<close> when it has at
  most 20) and then, in every case, the marker \<^verbatim>\<open>...\<close>.
\<close>

theorem asset_id_rendering:
  assumes "subscript obj ''timestamp'' = Inr ts"
    and "subscript obj ''asset_id'' = Inr (JStr a)"
  shows "fst (show_snapshot pf cnt obj) ! 2 = Print [S (''Asset ID: '' @ take 20 a @ ''...'')]
       \<and> fst (trade_step pf st obj) ! 2 = Print [S (''Asset ID: '' @ take 20 a @ ''...'')]
       \<and> fst (show_change pf cnt obj) ! 2 = Print [S (''Asset ID: '' @ take 20 a @ ''...'')]"
proof -
  obtain l where l: "pr (time_line pf obj) = ([Print l], Inr ())"
    using time_line_ok [OF assms(1)] by blast
  note a = asset_id_line_str [OF assms(2)]
  have "fst (show_snapshot pf cnt obj) ! 2 = Print [S (''Asset ID: '' @ take 20 a @ ''...'')]"
    unfolding show_snapshot_def by (simp add: l a)
  moreover have "fst (show_change pf cnt obj) ! 2 = Print [S (''Asset ID: '' @ take 20 a @ ''...'')]"
    unfolding show_change_def by (simp add: l a)
  moreover have "fst (trade_step pf st obj) ! 2 = Print [S (''Asset ID: '' @ take 20 a @ ''...'')]"
  proof -
    have "\<exists>t r. seq [pr (Inr [S (LF # ''Trade #''), S (dec_nat (count st + 1))]),
                 pr (time_line pf obj), pr (asset_id_line obj), pr (trade_line obj),
                 pr (fee_line obj)]
            = (Print [S (LF # ''Trade #'' @ dec_nat (count st + 1))] # Print l
                 # Print [S (''Asset ID: '' @ take 20 a @ ''...'')] # t, r)"
      by (simp add: l a)
    then obtain t r where s: "seq [pr (Inr [S (LF # ''Trade #''), S (dec_nat (count st + 1))]),
                 pr (time_line pf obj), pr (asset_id_line obj), pr (trade_line obj),
                 pr (fee_line obj)]
            = (Print [S (LF # ''Trade #'' @ dec_nat (count st + 1))] # Print l
                 # Print [S (''Asset ID: '' @ take 20 a @ ''...'')] # t, r)"
      by blast
    show ?thesis
      unfolding trade_step_def s by (cases r) (simp_all add: rbind_def split: prod.splits sum.splits)
  qed
  ultimately show ?thesis by blast
qed

theorem asset_id_rendering_witness:
  "subscript (JObj [(''timestamp'', JStr ''x''), (''asset_id'', JStr ''0123456789012345678901234'')])
       ''timestamp'' = Inr (JStr ''x'')
   \<and> fst (show_snapshot \<lparr>utcoffset = \<lambda>s. 0, pad_year = True\<rparr> 0
         (JObj [(''timestamp'', JStr ''x''), (''asset_id'', JStr ''0123456789012345678901234'')])) ! 2
       = Print [S ''Asset ID: 01234567890123456789...'']
   \<and> fst (trade_step \<lparr>utcoffset = \<lambda>s. 0, pad_year = True\<rparr> tstate0
         (JObj [(''timestamp'', JStr ''x''), (''asset_id'', JStr ''0123456789012345678901234'')])) ! 2
       = Print [S ''Asset ID: 01234567890123456789...'']"
proof -
  have h1: "subscript (JObj [(''timestamp'', JStr ''x''), (''asset_id'', JStr ''0123456789012345678901234'')])
       ''timestamp'' = Inr (JStr ''x'')"
    by (simp add: subscript_def)
  have h2: "subscript (JObj [(''timestamp'', JStr ''x''), (''asset_id'', JStr ''0123456789012345678901234'')])
       ''asset_id'' = Inr (JStr ''0123456789012345678901234'')"
    by (simp add: subscript_def)
  show ?thesis
    using h1 asset_id_rendering [OF h1 h2, of "\<lparr>utcoffset = \<lambda>s. 0, pad_year = True\<rparr>" 0 tstate0] by simp
qed

text \<open>
  The claim as the specification states it fails for a short identifier: the three
  characters \<^verbatim>\<open>abc\<close> are printed with the marker, not unchanged.
\<close>

theorem short_asset_id_counterexample:
  "pr (asset_id_line (JObj [(''asset_id'', JStr ''abc'')])) = ([Print [S ''Asset ID: abc...'']], Inr ())
   \<and> pr (asset_id_line (JObj [(''asset_id'', JStr ''abc'')])) \<noteq> ([Print [S ''Asset ID: abc'']], Inr ())"
  by (simp add: asset_id_line_def subscript_def py_slice_def py_str_def)

subsection \<open>Binary64 rounding\<close>

text \<open>
  The binade of a positive rational is found from the bit lengths of its numerator and
  denominator; the facts below bound it, bound the rounded mantissa, and give the
  overflow test of \<^verbatim>\<open>round_double\<close> without the power \<open>2 ^ 1024\<close>.
\<close>

lemma pow2_powi: "pow2 e = 2 powi e"
  by (simp add: pow2_def power_int_def inverse_eq_divide power_divide)

lemma pow2_pos [simp]: "0 < pow2 e"
  by (simp add: pow2_powi)

lemma pow2_nonzero [simp]: "pow2 e \<noteq> 0"
  using pow2_pos [of e] by linarith

lemma pow2_nonneg [simp]: "0 \<le> pow2 e"
  using pow2_pos [of e] by linarith

lemma pow2_not_neg [simp]: "\<not> pow2 e < 0"
  using pow2_pos [of e] by linarith

lemma pow2_add: "pow2 (a + b) = pow2 a * pow2 b"
  by (simp add: pow2_powi power_int_add)

lemma pow2_mono: "a \<le> b \<Longrightarrow> pow2 a \<le> pow2 b"
  by (simp add: pow2_powi power_int_increasing)

lemma pow2_strict_mono: "a < b \<Longrightarrow> pow2 a < pow2 b"
  by (simp add: pow2_powi power_int_strict_increasing)

lemma pow2_less_iff [simp]: "pow2 a < pow2 b \<longleftrightarrow> a < b"
  using pow2_strict_mono [of a b] pow2_mono [of b a] by (auto simp: not_less [symmetric])

lemma pow2_le_iff [simp]: "pow2 a \<le> pow2 b \<longleftrightarrow> a \<le> b"
  using pow2_strict_mono [of b a] pow2_mono [of a b] by (auto simp: not_le [symmetric])

lemma pow2_nat: "0 \<le> e \<Longrightarrow> pow2 e = 2 ^ nat e"
  by (simp add: pow2_def)

lemma pow2_diff: "pow2 (a - b) = pow2 a / pow2 b"
proof -
  have "pow2 a = pow2 (a - b) * pow2 b" by (simp flip: pow2_add)
  then show ?thesis by simp
qed

lemma bitlen_pow2_bounds:
  assumes "0 < p"
  shows "pow2 (bitlen p - 1) \<le> of_int p" and "of_int p < pow2 (bitlen p)"
proof -
  from assms have b: "1 \<le> bitlen p" by (auto simp: bitlen_alt_def)
  from bitlen_bounds [OF assms]
  have 1: "2 ^ nat (bitlen p - 1) \<le> p" and 2: "p < 2 ^ nat (bitlen p)" by auto
  have "(of_int (2 ^ nat (bitlen p - 1)) :: rat) \<le> of_int p"
    using 1 of_int_le_iff by blast
  then show "pow2 (bitlen p - 1) \<le> of_int p"
    using b by (simp add: pow2_nat)
  have "(of_int p :: rat) < of_int (2 ^ nat (bitlen p))"
    using 2 of_int_less_iff by blast
  then show "of_int p < pow2 (bitlen p)"
    using b by (simp add: pow2_nat)
qed

lemma floor_log2_bounds:
  assumes "0 < a"
  shows "pow2 (floor_log2 a) \<le> a" and "a < pow2 (floor_log2 a + 1)"
proof -
  obtain p q where pq: "quotient_of a = (p, q)" by (cases "quotient_of a")
  have q: "0 < q" using pq by (rule quotient_of_denom_pos)
  have a: "a = of_int p / of_int q" using pq by (rule quotient_of_div)
  have p: "0 < p" using assms q a by (simp add: zero_less_divide_iff)
  let ?d = "bitlen p - bitlen q"
  note P = bitlen_pow2_bounds [OF p] and Q = bitlen_pow2_bounds [OF q]
  have qpos: "(0::rat) < of_int q" using q by simp
  have up: "a < pow2 (?d + 1)"
  proof -
    have "a < pow2 (bitlen p) / of_int q"
      unfolding a using P(2) qpos by (simp add: divide_strict_right_mono)
    also have "\<dots> \<le> pow2 (bitlen p) / pow2 (bitlen q - 1)"
      by (intro frac_le) (use Q(1) in \<open>simp_all add: less_imp_le\<close>)
    also have "\<dots> = pow2 (?d + 1)"
      by (simp add: pow2_diff [symmetric] algebra_simps)
    finally show ?thesis .
  qed
  have lo: "pow2 (?d - 1) < a"
  proof -
    have "pow2 (?d - 1) = pow2 (bitlen p - 1) / pow2 (bitlen q)"
      by (simp add: pow2_diff [symmetric] algebra_simps)
    also have "\<dots> < pow2 (bitlen p - 1) / of_int q"
      using Q(2) qpos by (simp add: divide_strict_left_mono)
    also have "\<dots> \<le> a"
      unfolding a using P(1) qpos by (simp add: divide_right_mono)
    finally show ?thesis .
  qed
  have fl: "floor_log2 a = (if pow2 ?d \<le> a then ?d else ?d - 1)"
    by (simp add: floor_log2_def pq Let_def)
  show "pow2 (floor_log2 a) \<le> a" using lo by (simp add: fl)
  show "a < pow2 (floor_log2 a + 1)" using up by (simp add: fl)
qed

lemma floor_log2_eq:
  assumes "pow2 e \<le> a" and "a < pow2 (e + 1)"
  shows "floor_log2 a = e"
proof -
  have a: "0 < a" using assms(1) pow2_pos [of e] by linarith
  note B = floor_log2_bounds [OF a]
  have "pow2 (floor_log2 a) < pow2 (e + 1)" using B(1) assms(2) by linarith
  moreover have "pow2 e < pow2 (floor_log2 a + 1)" using B(2) assms(1) by linarith
  ultimately show ?thesis by simp
qed

lemma rhe_cases:
  "(r - of_int \<lfloor>r\<rfloor> \<le> 1 / 2 \<and> round_half_even r = \<lfloor>r\<rfloor>)
   \<or> (1 / 2 \<le> r - of_int \<lfloor>r\<rfloor> \<and> round_half_even r = \<lfloor>r\<rfloor> + 1)"
  by (simp add: round_half_even_def Let_def)

lemma rhe_bounds:
  shows "of_int (round_half_even r) \<le> r + 1 / 2" and "r - 1 / 2 \<le> of_int (round_half_even r)"
proof -
  have f: "of_int \<lfloor>r\<rfloor> \<le> r" "r < of_int \<lfloor>r\<rfloor> + 1" by linarith+
  show "of_int (round_half_even r) \<le> r + 1 / 2"
    using rhe_cases [of r] f by (elim disjE conjE; simp; linarith?)
  show "r - 1 / 2 \<le> of_int (round_half_even r)"
    using rhe_cases [of r] f by (elim disjE conjE; simp; linarith?)
qed

lemma rhe_of_int [simp]: "round_half_even (of_int k) = k"
  by (simp add: round_half_even_def)

lemma rhe_ge: "of_int k \<le> r \<Longrightarrow> k \<le> round_half_even r"
proof -
  assume a: "of_int k \<le> r"
  then have "k \<le> \<lfloor>r\<rfloor>" by (simp add: le_floor_iff)
  moreover have "\<lfloor>r\<rfloor> \<le> round_half_even r" by (simp add: round_half_even_def Let_def)
  ultimately show ?thesis by linarith
qed

lemma rhe_le: "r \<le> of_int k \<Longrightarrow> round_half_even r \<le> k"
proof -
  assume a: "r \<le> of_int k"
  have "r < of_int k + 1" using a by linarith
  then have f: "\<lfloor>r\<rfloor> \<le> k" by (simp add: floor_le_iff)
  show ?thesis
  proof (cases "of_int \<lfloor>r\<rfloor> = r")
    case True
    have "round_half_even (of_int \<lfloor>r\<rfloor>) = \<lfloor>r\<rfloor>" by (rule rhe_of_int)
    then have "round_half_even r = \<lfloor>r\<rfloor>" using True by simp
    then show ?thesis using f by simp
  next
    case False
    then have "of_int \<lfloor>r\<rfloor> < r" by (simp add: less_le)
    then have "of_int \<lfloor>r\<rfloor> < (of_int k :: rat)" using a by linarith
    then have "\<lfloor>r\<rfloor> < k" by simp
    moreover have "round_half_even r \<le> \<lfloor>r\<rfloor> + 1"
      by (simp add: round_half_even_def Let_def)
    ultimately show ?thesis by linarith
  qed
qed

lemma mantissa_bounds:
  assumes "0 < a" and "e = max (floor_log2 a) (- 1022)"
  shows "round_half_even (a / pow2 (e - 52)) \<le> 2 ^ 53"
    and "- 1022 \<le> floor_log2 a \<Longrightarrow> 2 ^ 52 \<le> round_half_even (a / pow2 (e - 52))"
proof -
  note B = floor_log2_bounds [OF assms(1)]
  have "pow2 (floor_log2 a + 1) \<le> pow2 (e + 1)" using assms(2) by simp
  then have "a < pow2 (e + 1)" using B(2) by linarith
  then have "a / pow2 (e - 52) < pow2 (e + 1) / pow2 (e - 52)"
    by (simp add: divide_strict_right_mono)
  also have "\<dots> = pow2 53" by (simp add: pow2_diff [symmetric])
  also have "\<dots> = of_int (2 ^ 53)" by (simp add: pow2_def)
  finally have "a / pow2 (e - 52) \<le> of_int (2 ^ 53)" by simp
  then show "round_half_even (a / pow2 (e - 52)) \<le> 2 ^ 53" by (rule rhe_le)
  assume n: "- 1022 \<le> floor_log2 a"
  then have e: "e = floor_log2 a" using assms(2) by simp
  have "of_int (2 ^ 52) = pow2 52" by (simp add: pow2_def)
  also have "\<dots> = pow2 e / pow2 (e - 52)" by (simp add: pow2_diff [symmetric])
  also have "\<dots> \<le> a / pow2 (e - 52)"
    using B(1) e by (intro divide_right_mono) (simp_all add: less_imp_le)
  finally show "2 ^ 52 \<le> round_half_even (a / pow2 (e - 52))" by (rule rhe_ge)
qed

lemma overflow_test:
  assumes "0 < a" and "e = max (floor_log2 a) (- 1022)" and "n = round_half_even (a / pow2 (e - 52))"
  shows "pow2 1024 \<le> of_int n * pow2 (e - 52) \<longleftrightarrow> 1023 < e \<or> (e = 1023 \<and> 2 ^ 53 \<le> n)"
proof -
  note M = mantissa_bounds [OF assms(1,2), folded assms(3)]
  have up: "of_int n * pow2 (e - 52) \<le> pow2 (e + 1)"
  proof -
    have "(of_int n :: rat) \<le> of_int (2 ^ 53)" using M(1) of_int_le_iff by blast
    also have "\<dots> = pow2 53" by (simp add: pow2_def)
    finally have "of_int n * pow2 (e - 52) \<le> pow2 53 * pow2 (e - 52)"
      by (simp add: mult_right_mono)
    then show ?thesis by (simp add: pow2_add [symmetric] add.commute)
  qed
  consider "e < 1023" | "e = 1023" | "1023 < e" by linarith
  then show ?thesis
  proof cases
    case 1
    then have "pow2 (e + 1) < pow2 1024" by simp
    then have "\<not> pow2 1024 \<le> of_int n * pow2 (e - 52)" using up by linarith
    then show ?thesis using 1 by simp
  next
    case 2
    have "pow2 1024 = of_int (2 ^ 53) * pow2 (e - 52)"
      unfolding 2 by (simp add: pow2_def)
    then have "pow2 1024 \<le> of_int n * pow2 (e - 52) \<longleftrightarrow> (of_int (2 ^ 53) :: rat) \<le> of_int n"
      by (simp add: mult_le_cancel_right not_less less_imp_le)
    also have "\<dots> \<longleftrightarrow> 2 ^ 53 \<le> n" using of_int_le_iff by blast
    finally show ?thesis using 2 by simp
  next
    case 3
    then have fl: "- 1022 \<le> floor_log2 a" using assms(2) by simp
    have "(of_int (2 ^ 52) :: rat) \<le> of_int n" using M(2) [OF fl] of_int_le_iff by blast
    then have "pow2 52 \<le> of_int n" by (simp add: pow2_def)
    then have "pow2 52 * pow2 (e - 52) \<le> of_int n * pow2 (e - 52)" by (simp add: mult_right_mono)
    then have "pow2 e \<le> of_int n * pow2 (e - 52)" by (simp add: pow2_add [symmetric])
    moreover have "pow2 1024 \<le> pow2 e" using 3 by simp
    ultimately have "pow2 1024 \<le> of_int n * pow2 (e - 52)" by (rule order_trans [rotated])
    then show ?thesis using 3 by simp
  qed
qed

lemma round_double_code [code]:
  "round_double r =
     (if r = 0 then Fin 0
      else
        let a = \<bar>r\<bar>;
            e = max (floor_log2 a) (- 1022);
            q = pow2 (e - 52);
            n = round_half_even (a / q)
        in if 1023 < e \<or> (e = 1023 \<and> 2 ^ 53 \<le> n) then (if 0 < r then PInf else NInf)
           else if n = 0 then (if 0 < r then Fin 0 else NegZero)
           else Fin (if 0 < r then of_int n * q else - (of_int n * q)))"
proof (cases "r = 0")
  case True
  then show ?thesis by (simp add: round_double_def)
next
  case False
  then have a: "0 < \<bar>r\<bar>" by simp
  show ?thesis
    unfolding round_double_def Let_def overflow_test [OF a refl refl] by simp
qed

end
